theory Spec2Isabelle
  imports Complex_Main "HOL-Library.Sublist"
begin

section \<open>JavaScript values\<close>

text \<open>
  The bot is a JavaScript program (\<^verbatim>\<open>src/index.js\<close>). A JavaScript number is modelled
  as the rational it denotes, or \<open>NaN\<close> (which \<^verbatim>\<open>parseFloat\<close> produces on a token such
  as \<^verbatim>\<open>"."\<close>); products and sums are exact, so the rounding error and the overflow
  of IEEE doubles are outside the model. \<^verbatim>\<open>Date.now()\<close> readings are integers
  (milliseconds).
\<close>

datatype jsnum = Num rat | NaN

text \<open>
  A status payload is whatever \<^verbatim>\<open>resp.data\<close> holds after axios has parsed the
  response body: any JSON value. An object is the list of its properties; the first
  binding of a name is the property's value.
\<close>

datatype json =
    JUndefined
  | JNull
  | JBool bool
  | JNumber jsnum
  | JString string
  | JArray "json list"
  | JObject "(string \<times> json) list"

text \<open>The values a \<^verbatim>\<open>throw\<close> or a rejected promise carries.\<close>

datatype js_error =
    TypeError                \<comment> \<open>a property read on \<^verbatim>\<open>null\<close> or \<^verbatim>\<open>undefined\<close>\<close>
  | PollTimedOut             \<comment> \<open>\<^verbatim>\<open>new Error('Replicate polling timed out')\<close>\<close>
  | JobFailed json           \<comment> \<open>\<^verbatim>\<open>new Error('Replicate job failed: ' + JSON.stringify(res))\<close>\<close>
  | RequestError string      \<comment> \<open>a rejected HTTP or Telegram request, with its message\<close>

fun truthy :: "json \<Rightarrow> bool" where
  "truthy JUndefined = False"
| "truthy JNull = False"
| "truthy (JBool b) = b"
| "truthy (JNumber (Num r)) = (r \<noteq> 0)"
| "truthy (JNumber NaN) = False"
| "truthy (JString s) = (s \<noteq> [])"
| "truthy (JArray xs) = True"
| "truthy (JObject kvs) = True"

text \<open>
  \<^verbatim>\<open>v.name\<close> for the names this program reads (\<^verbatim>\<open>status\<close>, \<^verbatim>\<open>progress\<close>,
  \<^verbatim>\<open>metrics\<close>, \<^verbatim>\<open>logs\<close>): none of them is a property of a boolean, a number, a
  string or an array, so the read gives \<^verbatim>\<open>undefined\<close> there. On \<^verbatim>\<open>null\<close> and
  \<^verbatim>\<open>undefined\<close> the read throws a TypeError (\<open>get_prop\<close>).
\<close>

fun field :: "json \<Rightarrow> string \<Rightarrow> json" where
  "field (JObject kvs) k = (case map_of kvs k of None \<Rightarrow> JUndefined | Some v \<Rightarrow> v)"
| "field v k = JUndefined"

definition get_prop :: "json \<Rightarrow> string \<Rightarrow> js_error + json" where
  "get_prop v k = (if v = JNull \<or> v = JUndefined then Inl TypeError else Inr (field v k))"

text \<open>\<^verbatim>\<open>typeof v === 'number'\<close>, \<^verbatim>\<open>Array.isArray(v)\<close>, \<^verbatim>\<open>typeof v === 'string'\<close>.\<close>

fun as_number :: "json \<Rightarrow> jsnum option" where
  "as_number (JNumber n) = Some n"
| "as_number v = None"

fun as_array :: "json \<Rightarrow> json list option" where
  "as_array (JArray xs) = Some xs"
| "as_array v = None"

fun as_string :: "json \<Rightarrow> string option" where
  "as_string (JString s) = Some s"
| "as_string v = None"

subsection \<open>Arithmetic on numbers\<close>

fun js_times :: "jsnum \<Rightarrow> jsnum \<Rightarrow> jsnum" where
  "js_times (Num a) (Num b) = Num (a * b)"
| "js_times a b = NaN"

fun js_minus :: "jsnum \<Rightarrow> jsnum \<Rightarrow> jsnum" where
  "js_minus (Num a) (Num b) = Num (a - b)"
| "js_minus a b = NaN"

text \<open>A comparison with \<open>NaN\<close> on either side is false.\<close>

fun js_ge :: "jsnum \<Rightarrow> jsnum \<Rightarrow> bool" where
  "js_ge (Num a) (Num b) = (b \<le> a)"
| "js_ge a b = False"

fun js_le :: "jsnum \<Rightarrow> jsnum \<Rightarrow> bool" where
  "js_le (Num a) (Num b) = (a \<le> b)"
| "js_le a b = False"

text \<open>
  \<^verbatim>\<open>Math.round\<close> rounds to the nearest integer, a half towards \<open>+\<infinity>\<close>: that is
  \<open>\<lfloor>x + 1/2\<rfloor>\<close>, which is \<^const>\<open>round\<close>.
\<close>

fun Math_round :: "jsnum \<Rightarrow> jsnum" where
  "Math_round (Num a) = Num (of_int (round a))"
| "Math_round NaN = NaN"

fun Math_max :: "jsnum \<Rightarrow> jsnum \<Rightarrow> jsnum" where
  "Math_max (Num a) (Num b) = Num (max a b)"
| "Math_max a b = NaN"

fun Math_min :: "jsnum \<Rightarrow> jsnum \<Rightarrow> jsnum" where
  "Math_min (Num a) (Num b) = Num (min a b)"
| "Math_min a b = NaN"

subsection \<open>The two regular expressions and the number parsers\<close>

text \<open>
  A string is a list of code units below 256. \<^verbatim>\<open>\d\<close> is an ASCII digit; \<^verbatim>\<open>\s\<close> is
  a space, a tab, a line feed, a vertical tab, a form feed, a carriage return or a
  no-break space.
\<close>

definition is_digit :: "char \<Rightarrow> bool" where
  "is_digit c \<longleftrightarrow> c \<in> set ''0123456789''"

definition is_space :: "char \<Rightarrow> bool" where
  "is_space c \<longleftrightarrow> c \<in> set [CHR '' '', CHR 0x09, CHR 0x0A, CHR 0x0B, CHR 0x0C, CHR 0x0D, CHR 0xA0]"

definition digit_val :: "char \<Rightarrow> nat" where
  "digit_val c = of_char c - 48"

text \<open>\<^verbatim>\<open>parseInt(ds, 10)\<close> on a string of digits.\<close>

definition parseInt10 :: "string \<Rightarrow> nat" where
  "parseInt10 ds = foldl (\<lambda>a c. 10 * a + digit_val c) 0 ds"

text \<open>
  \<^verbatim>\<open>lastLog.match(/(\d{1,3})\s?%/)\<close>: the leftmost match, and its group 1.
  At one position \<^verbatim>\<open>\d{1,3}\<close> takes the longest run of up to three digits; giving a
  digit back cannot help, since the next character would then be a digit, which is
  neither whitespace nor \<^verbatim>\<open>%\<close>.
\<close>

definition match_percent_here :: "string \<Rightarrow> string option" where
  "match_percent_here s =
     (let ds = takeWhile is_digit (take 3 s);
          rest = drop (length ds) s
      in if ds \<noteq> [] \<and>
            (case rest of
               [] \<Rightarrow> False
             | c # r \<Rightarrow> c = CHR ''%'' \<or> (is_space c \<and> (case r of [] \<Rightarrow> False | d # _ \<Rightarrow> d = CHR ''%'')))
         then Some ds else None)"

fun find_percent :: "string \<Rightarrow> string option" where
  "find_percent [] = None"
| "find_percent (c # cs) =
     (case match_percent_here (c # cs) of
        Some ds \<Rightarrow> Some ds
      | None \<Rightarrow> find_percent cs)"

text \<open>
  \<^verbatim>\<open>lastLog.match(/progress[:=]\s*([0-9.]+)/i)\<close>: the leftmost match, and its group 1.
  The flag \<^verbatim>\<open>i\<close> lets each letter of \<^verbatim>\<open>progress\<close> match in either case.
\<close>

definition upper :: "char \<Rightarrow> char" where
  "upper c = (if c \<in> set ''abcdefghijklmnopqrstuvwxyz'' then char_of (of_char c - (32::nat)) else c)"

fun ci_prefix :: "string \<Rightarrow> string \<Rightarrow> string option" where
  "ci_prefix [] s = Some s"
| "ci_prefix (p # ps) [] = None"
| "ci_prefix (p # ps) (c # cs) = (if c = p \<or> c = upper p then ci_prefix ps cs else None)"

definition is_numch :: "char \<Rightarrow> bool" where
  "is_numch c \<longleftrightarrow> is_digit c \<or> c = CHR ''.''"

definition match_progress_here :: "string \<Rightarrow> string option" where
  "match_progress_here s =
     (case ci_prefix ''progress'' s of
        None \<Rightarrow> None
      | Some [] \<Rightarrow> None
      | Some (c # r) \<Rightarrow>
          if c = CHR '':'' \<or> c = CHR ''=''
          then (let cs = takeWhile is_numch (dropWhile is_space r)
                in if cs = [] then None else Some cs)
          else None)"

fun find_progress :: "string \<Rightarrow> string option" where
  "find_progress [] = None"
| "find_progress (c # cs) =
     (case match_progress_here (c # cs) of
        Some m \<Rightarrow> Some m
      | None \<Rightarrow> find_progress cs)"

text \<open>
  \<^verbatim>\<open>parseFloat\<close> on a string of digits and dots reads the longest prefix that is a
  decimal literal (\<^verbatim>\<open>12\<close>, \<^verbatim>\<open>12.\<close>, \<^verbatim>\<open>12.5\<close>, \<^verbatim>\<open>.5\<close>) and gives \<open>NaN\<close> when
  there is none (\<^verbatim>\<open>.\<close>, \<^verbatim>\<open>..5\<close>).
\<close>

definition parseFloat :: "string \<Rightarrow> jsnum" where
  "parseFloat cs =
     (let ip = takeWhile is_digit cs;
          rest = dropWhile is_digit cs;
          fp = (case rest of [] \<Rightarrow> [] | c # r \<Rightarrow> if c = CHR ''.'' then takeWhile is_digit r else [])
      in if ip = [] \<and> fp = [] then NaN
         else Num (of_nat (parseInt10 ip) + of_nat (parseInt10 fp) / 10 ^ length fp))"

section \<open>The progress editor (\<^verbatim>\<open>createReplicateProgressEditorFactory\<close>)\<close>

subsection \<open>Percent extraction\<close>

definition clamp_percent :: "jsnum \<Rightarrow> jsnum" where
  "clamp_percent p = Math_min (Num 100) (Math_max (Num 0) p)"

text \<open>\<^verbatim>\<open>res.logs[res.logs.length - 1] || ''\<close>\<close>

definition last_log :: "json list \<Rightarrow> json" where
  "last_log logs =
     (let l = (if logs = [] then JUndefined else last logs)
      in if truthy l then l else JString [])"

definition percent_of_log :: "string \<Rightarrow> jsnum option" where
  "percent_of_log lastLog =
     (case find_percent lastLog of
        Some ds \<Rightarrow> Some (clamp_percent (Num (of_nat (parseInt10 ds))))
      | None \<Rightarrow>
          (case find_progress lastLog of
             Some cs \<Rightarrow>
               (let p = parseFloat cs;
                    p' = (if js_le p (Num 1) then Math_round (js_times p (Num 100)) else p)
                in Some (clamp_percent (Math_round p')))
           | None \<Rightarrow> None))"

text \<open>
  The tests of the \<^verbatim>\<open>if / else if\<close> chain of \<^verbatim>\<open>onProgress\<close>, each with the value it
  guards: \<^verbatim>\<open>typeof res.progress === 'number'\<close>;
  \<^verbatim>\<open>res.metrics && typeof res.metrics.progress === 'number'\<close>;
  \<^verbatim>\<open>res.logs && Array.isArray(res.logs)\<close> with \<^verbatim>\<open>typeof lastLog === 'string'\<close>.
\<close>

definition direct_progress :: "json \<Rightarrow> jsnum option" where
  "direct_progress res = as_number (field res ''progress'')"

definition metrics_progress :: "json \<Rightarrow> jsnum option" where
  "metrics_progress res =
     (if truthy (field res ''metrics'')
      then as_number (field (field res ''metrics'') ''progress'') else None)"

definition recent_log :: "json \<Rightarrow> string option" where
  "recent_log res =
     (if truthy (field res ''logs'')
      then (case as_array (field res ''logs'') of
              Some logs \<Rightarrow> as_string (last_log logs)
            | None \<Rightarrow> None)
      else None)"

text \<open>\<^verbatim>\<open>Math.round(x * 100)\<close>\<close>

definition scale100 :: "jsnum \<Rightarrow> jsnum" where
  "scale100 n = Math_round (js_times n (Num 100))"

text \<open>
  The chain itself, for a payload that is neither \<^verbatim>\<open>null\<close> nor \<^verbatim>\<open>undefined\<close>;
  \<open>None\<close> is \<^verbatim>\<open>percent = null\<close>.
\<close>

definition percent_of :: "json \<Rightarrow> jsnum option" where
  "percent_of res =
     (case direct_progress res of
        Some n \<Rightarrow> Some (scale100 n)
      | None \<Rightarrow>
          (case metrics_progress res of
             Some n \<Rightarrow> Some (scale100 n)
           | None \<Rightarrow>
               (case recent_log res of
                  Some lastLog \<Rightarrow> percent_of_log lastLog
                | None \<Rightarrow> None)))"

text \<open>The first read, \<^verbatim>\<open>res.progress\<close>, throws when the payload is \<^verbatim>\<open>null\<close>.\<close>

definition extract_percent :: "json \<Rightarrow> js_error + jsnum option" where
  "extract_percent res =
     (case get_prop res ''progress'' of
        Inl e \<Rightarrow> Inl e
      | Inr _ \<Rightarrow> Inr (percent_of res))"

subsection \<open>The notifier's state and one call of \<^verbatim>\<open>onProgress\<close>\<close>

text \<open>
  A sent Telegram message; the program reads only its \<^verbatim>\<open>message_id\<close>. The closure
  variables \<^verbatim>\<open>lastPercent\<close>, \<^verbatim>\<open>lastSentTime\<close> and \<^verbatim>\<open>progressMsg\<close> are the notifier's
  state.
\<close>

datatype message = Message (message_id: int)

record notifier =
  lastPercent :: jsnum
  lastSentTime :: int
  progressMsg :: "message option"

definition initial_notifier :: notifier where
  "initial_notifier = \<lparr>lastPercent = Num (- 1), lastSentTime = 0, progressMsg = None\<rparr>"

definition MIN_DELTA :: rat where
  "MIN_DELTA = 5"

definition MIN_INTERVAL_MS :: int where
  "MIN_INTERVAL_MS = 15000"

text \<open>
  What one call of \<^verbatim>\<open>onProgress\<close> meets: the reading of \<^verbatim>\<open>Date.now()\<close>, the outcome
  of \<^verbatim>\<open>ctx.reply(text)\<close> (called at most once in a call) and the outcome of
  \<^verbatim>\<open>ctx.telegram.editMessageText\<close> (\<open>Some e\<close> when it is rejected).
\<close>

record transport =
  now :: int
  reply_result :: "js_error + message"
  edit_result :: "js_error option"

text \<open>
  The calls \<^verbatim>\<open>onProgress\<close> makes, with their outcomes. The text of a message is
  \<^verbatim>\<open>withPrefix(`Processing: ${pctText}`)\<close>, where \<^verbatim>\<open>pctText\<close> is \<^verbatim>\<open>`${percent}%`\<close> for a
  number and \<^verbatim>\<open>'processing...'\<close> for \<^verbatim>\<open>null\<close>: the percent determines it, and the
  model records the percent.
\<close>

datatype call =
    Reply "jsnum option" "js_error + message"
  | EditMessageText int "jsnum option" "js_error option"
  | Warn js_error

definition shouldUpdate :: "notifier \<Rightarrow> jsnum option \<Rightarrow> int \<Rightarrow> bool" where
  "shouldUpdate s percent t \<longleftrightarrow>
     (case percent of
        Some p \<Rightarrow> js_ge (js_minus p (lastPercent s)) (Num MIN_DELTA)
      | None \<Rightarrow> False)
     \<or> t - lastSentTime s \<ge> MIN_INTERVAL_MS"

text \<open>
  The \<^verbatim>\<open>if (!progressMsg) ... else ...\<close> block: the first component is the error that
  leaves the block, if any.
\<close>

definition deliver :: "transport \<Rightarrow> jsnum option \<Rightarrow> notifier \<Rightarrow> js_error option \<times> notifier \<times> call list" where
  "deliver w percent s =
     (case progressMsg s of
        None \<Rightarrow>
          (case reply_result w of
             Inl e \<Rightarrow> (Some e, s, [Reply percent (Inl e)])
           | Inr sent \<Rightarrow> (None, s\<lparr>progressMsg := Some sent\<rparr>, [Reply percent (Inr sent)]))
      | Some m \<Rightarrow>
          (case edit_result w of
             None \<Rightarrow> (None, s, [EditMessageText (message_id m) percent None])
           | Some e \<Rightarrow>
               (case reply_result w of
                  Inl e' \<Rightarrow>
                    (Some e', s, [EditMessageText (message_id m) percent (Some e), Reply percent (Inl e')])
                | Inr sent \<Rightarrow>
                    (None, s, [EditMessageText (message_id m) percent (Some e), Reply percent (Inr sent)]))))"

text \<open>The body of the outer \<^verbatim>\<open>try\<close>, with the error that reaches its \<^verbatim>\<open>catch\<close>.\<close>

definition onProgress_body :: "transport \<Rightarrow> json \<Rightarrow> notifier \<Rightarrow> js_error option \<times> notifier \<times> call list" where
  "onProgress_body w res s =
     (case extract_percent res of
        Inl e \<Rightarrow> (Some e, s, [])
      | Inr percent \<Rightarrow>
          if \<not> shouldUpdate s percent (now w) then (None, s, [])
          else
            (case deliver w percent (s\<lparr>lastSentTime := now w\<rparr>) of
               (Some e, s', cs) \<Rightarrow> (Some e, s', cs)
             | (None, s', cs) \<Rightarrow>
                 (None, (case percent of Some p \<Rightarrow> s'\<lparr>lastPercent := p\<rparr> | None \<Rightarrow> s'), cs)))"

text \<open>
  \<^verbatim>\<open>onProgress\<close>: the \<^verbatim>\<open>catch\<close> turns the error into a \<^verbatim>\<open>console.warn\<close>. The function
  is \<^verbatim>\<open>async\<close> and the poller does not await it; the model runs one call to its end
  before the next tick, as happens when the Telegram requests return within the
  polling interval.
\<close>

definition onProgress :: "transport \<Rightarrow> json \<Rightarrow> notifier \<Rightarrow> notifier \<times> call list" where
  "onProgress w res s =
     (case onProgress_body w res s of
        (None, s', cs) \<Rightarrow> (s', cs)
      | (Some e, s', cs) \<Rightarrow> (s', cs @ [Warn e]))"

text \<open>One notifier fed a sequence of ticks.\<close>

fun notify_run :: "(transport \<times> json) list \<Rightarrow> notifier \<Rightarrow> notifier \<times> call list" where
  "notify_run [] s = (s, [])"
| "notify_run ((w, res) # rest) s =
     (let r = onProgress w res s; r' = notify_run rest (fst r)
      in (fst r', snd r @ snd r'))"

text \<open>What a call put in front of the user: the percent of each delivered message.\<close>

fun delivered :: "call \<Rightarrow> jsnum option option" where
  "delivered (Reply p (Inr m)) = Some p"
| "delivered (EditMessageText i p None) = Some p"
| "delivered c = None"

definition notifications :: "call list \<Rightarrow> nat" where
  "notifications cs = length (List.map_filter delivered cs)"


section \<open>The poller (\<^verbatim>\<open>pollReplicatePrediction\<close>)\<close>

text \<open>
  One iteration of the \<^verbatim>\<open>while (true)\<close> loop meets: the reading of \<^verbatim>\<open>Date.now()\<close> at
  its top, the outcome of \<^verbatim>\<open>replicateGet\<close> (\<open>Inl e\<close> when axios rejects) and what the
  callback meets. The \<^verbatim>\<open>setTimeout\<close> at the end of an iteration shows in the next
  iteration's clock.
\<close>

record 'w tick =
  clock :: int
  fetched :: "js_error + json"
  world :: 'w

text \<open>
  A callback may throw (\<open>Some e\<close>) and changes its own state. \<open>T\<close> is
  \<^verbatim>\<open>REPLICATE_POLL_TIMEOUT_SEC\<close>, \<open>start\<close> the reading of \<^verbatim>\<open>Date.now()\<close> before the
  loop.
\<close>

type_synonym ('w, 's) callback = "'w \<Rightarrow> json \<Rightarrow> 's \<Rightarrow> js_error option \<times> 's"

definition timed_out :: "int \<Rightarrow> int \<Rightarrow> 'w tick \<Rightarrow> bool" where
  "timed_out T start t \<longleftrightarrow> (of_int (clock t - start) / 1000 :: rat) > of_int T"

text \<open>
  The loop over a script of iterations. The result is \<open>None\<close> when the script ends
  while the loop is still polling, \<open>Some (Inr res)\<close> when it returns \<open>res\<close> and
  \<open>Some (Inl e)\<close> when it throws \<open>e\<close>.
\<close>

fun poll_loop :: "int \<Rightarrow> ('w, 's) callback option \<Rightarrow> int \<Rightarrow> 'w tick list \<Rightarrow> 's \<Rightarrow> (js_error + json) option \<times> 's" where
  "poll_loop T onP start [] s = (None, s)"
| "poll_loop T onP start (t # ts) s =
     (if timed_out T start t then (Some (Inl PollTimedOut), s)
      else
        (case fetched t of
           Inl e \<Rightarrow> (Some (Inl e), s)
         | Inr res \<Rightarrow>
             (let s' = (case onP of None \<Rightarrow> s | Some f \<Rightarrow> snd (f (world t) res s))
              in case get_prop res ''status'' of
                   Inl e \<Rightarrow> (Some (Inl e), s')
                 | Inr st \<Rightarrow>
                     if st = JString ''succeeded'' then (Some (Inr res), s')
                     else if st = JString ''failed'' then (Some (Inl (JobFailed res)), s')
                     else poll_loop T onP start ts s')))"

definition pollReplicatePrediction :: "int \<Rightarrow> ('w, 's) callback option \<Rightarrow> int \<Rightarrow> 'w tick list \<Rightarrow> 's \<Rightarrow> (js_error + json) option \<times> 's" where
  "pollReplicatePrediction T onP start ticks s = poll_loop T onP start ticks s"

text \<open>
  The progress editor as the poller's callback: calling an \<^verbatim>\<open>async\<close> function never
  throws, and the calls it makes are appended to a log.
\<close>

definition progressEditor :: "(transport, notifier \<times> call list) callback" where
  "progressEditor w res = (\<lambda>(s, log). (None, (fst (onProgress w res s), log @ snd (onProgress w res s))))"

section \<open>The fallback chains of the \<^verbatim>\<open>/ai\<close> command\<close>

text \<open>
  What one \<^verbatim>\<open>/ai\<close> call meets: which environment variables are set, and the outcome
  of each provider call (\<open>Inl e\<close> when it throws). \<open>hfModelUrl\<close> and \<open>repModel\<close> say
  whether the model variable the branch selects is set. \<^verbatim>\<open>wikiSummary\<close> and
  \<^verbatim>\<open>duckDuck\<close> catch their own errors and always return a text. The conversation
  memory and the delivery of the final reply are not modelled.
\<close>

record providers =
  HF_SPACE_URL :: bool
  HUGGINGFACE_API_KEY :: bool
  hfModelUrl :: bool
  REPLICATE_API_KEY :: bool
  repModel :: bool
  RUNWAY_API_KEY :: bool
  STABILITY_KEY :: bool
  PIXABAY_KEY :: bool
  callHfSpace :: "js_error + string"
  callHfApi :: "js_error + string"
  callReplicateCreate :: "js_error + json"
  poll_start :: int
  poll_ticks :: "transport tick list"
  callRunway :: "js_error + json"
  callStabilityImage :: "js_error + unit"
  pixabaySearch :: "js_error + json list"
  wikiSummary :: string
  duckDuck :: string

datatype provider = HfSpace | HfApi | Replicate | Runway | Stability | Pixabay

text \<open>
  The trace of a call: \<open>Call p\<close> when the client function of \<open>p\<close> is called, \<open>Warned p e\<close>
  for \<^verbatim>\<open>console.warn('... error', e.message)\<close>. The progress messages sent while polling
  are left out of the trace.
\<close>

datatype chain_event = Call provider | Warned provider js_error

text \<open>
  The replies of the media branch. \<open>ErrorText l e\<close> is the text
  \<^verbatim>\<open>withPrefix(l + e.message)\<close>; the captions of photos and videos are left out.
\<close>

datatype reply =
    Text string
  | ErrorText string js_error
  | TextOf json
  | Photo json
  | PhotoBuffer
  | Video json
  | Document json

definition withPrefix :: "string \<Rightarrow> string" where
  "withPrefix txt = ''Belaynish'' @ [CHR 0x0A, CHR 0x0A] @ txt"

text \<open>\<^verbatim>\<open>safeFirst(arr)\<close>: \<^verbatim>\<open>Array.isArray(arr) && arr.length ? arr[0] : null\<close>\<close>

fun safeFirst :: "json \<Rightarrow> json" where
  "safeFirst (JArray (x # xs)) = x"
| "safeFirst v = JNull"

text \<open>\<^verbatim>\<open>v?.name\<close>\<close>

definition opt_field :: "json \<Rightarrow> string \<Rightarrow> json" where
  "opt_field v k = (if v = JNull \<or> v = JUndefined then JUndefined else field v k)"

text \<open>\<^verbatim>\<open>v?.[0]\<close>, and \<^verbatim>\<open>v.length\<close> as a condition.\<close>

fun index0 :: "json \<Rightarrow> json" where
  "index0 (JArray (x # xs)) = x"
| "index0 (JString (c # cs)) = JString [c]"
| "index0 (JObject kvs) = field (JObject kvs) ''0''"
| "index0 v = JUndefined"

fun has_length :: "json \<Rightarrow> bool" where
  "has_length (JArray xs) = (xs \<noteq> [])"
| "has_length (JString cs) = (cs \<noteq> [])"
| "has_length (JObject kvs) = truthy (field (JObject kvs) ''length'')"
| "has_length v = False"

text \<open>
  \<^verbatim>\<open>String(v)\<close> is \<open>v\<close> itself for a string; for other values, and for
  \<^verbatim>\<open>JSON.stringify\<close>, the chains take the conversion as a parameter.
\<close>

fun String_of :: "(json \<Rightarrow> string) \<Rightarrow> json \<Rightarrow> string" where
  "String_of str (JString s) = s"
| "String_of str v = str v"

text \<open>\<^verbatim>\<open>!answer\<close>, for an answer that is \<^verbatim>\<open>null\<close> or a string.\<close>

definition no_answer :: "string option \<Rightarrow> bool" where
  "no_answer a \<longleftrightarrow> (case a of None \<Rightarrow> True | Some s \<Rightarrow> s = [])"

text \<open>
  The \<^verbatim>\<open>try\<close> block of the Replicate candidate of the chat branch, once \<^verbatim>\<open>repModel\<close> is
  set: its answer, or the error that reaches the \<^verbatim>\<open>catch\<close>; \<open>None\<close> when the polling
  script ends before the polling does.
\<close>

definition replicate_chat :: "(json \<Rightarrow> string) \<Rightarrow> (json \<Rightarrow> string) \<Rightarrow> int \<Rightarrow> providers \<Rightarrow> (js_error + string) option" where
  "replicate_chat str stringify T env =
     (case callReplicateCreate env of
        Inl e \<Rightarrow> Some (Inl e)
      | Inr created \<Rightarrow>
          if truthy (opt_field created ''id'') then
            (case fst (pollReplicatePrediction T (Some progressEditor) (poll_start env) (poll_ticks env)
                         (initial_notifier, [])) of
               None \<Rightarrow> None
             | Some (Inl e) \<Rightarrow> Some (Inl e)
             | Some (Inr polled) \<Rightarrow>
                 (let out = safeFirst (field polled ''output'')
                  in Some (Inr (if truthy out then String_of str out else stringify polled))))
          else if truthy (opt_field created ''output'') \<and> has_length (opt_field created ''output'')
          then Some (Inr (String_of str (index0 (opt_field created ''output''))))
          else Some (Inr ''Replicate job started (no immediate output).''))"

text \<open>
  The last resort of the chat branch, \<^verbatim>\<open>`${w}\n\nDuck summary:\n${d}`\<close>, and the answer that
  is replied.
\<close>

definition wiki_duck :: "providers \<Rightarrow> string" where
  "wiki_duck env = wikiSummary env @ [CHR 0x0A, CHR 0x0A] @ ''Duck summary:'' @ [CHR 0x0A] @ duckDuck env"

definition final_answer :: "providers \<Rightarrow> string option \<Rightarrow> string" where
  "final_answer env a =
     (if no_answer a then wiki_duck env
      else (case a of Some s \<Rightarrow> s | None \<Rightarrow> []))"

text \<open>
  The chat branch from \<^verbatim>\<open>let answer = null\<close> to the reply: HF Space, then the HF API,
  then Replicate, then Wikipedia and DuckDuckGo. The result is the trace and the text
  given to \<^verbatim>\<open>ctx.reply(withPrefix(answer))\<close>.
\<close>

definition chat_chain :: "(json \<Rightarrow> string) \<Rightarrow> (json \<Rightarrow> string) \<Rightarrow> int \<Rightarrow> providers \<Rightarrow> (chain_event list \<times> string) option" where
  "chat_chain str stringify T env =
     (let r1 = (if HF_SPACE_URL env
                then (case callHfSpace env of
                        Inl e \<Rightarrow> (None, [Call HfSpace, Warned HfSpace e])
                      | Inr s \<Rightarrow> (Some s, [Call HfSpace]))
                else (None, []));
          r2 = (if no_answer (fst r1) \<and> HUGGINGFACE_API_KEY env \<and> hfModelUrl env
                then (case callHfApi env of
                        Inl e \<Rightarrow> (fst r1, snd r1 @ [Call HfApi, Warned HfApi e])
                      | Inr s \<Rightarrow> (Some s, snd r1 @ [Call HfApi]))
                else r1)
      in if no_answer (fst r2) \<and> REPLICATE_API_KEY env \<and> repModel env
         then (case replicate_chat str stringify T env of
                 None \<Rightarrow> None
               | Some (Inl e) \<Rightarrow>
                   Some (snd r2 @ [Call Replicate, Warned Replicate e], withPrefix (final_answer env (fst r2)))
               | Some (Inr s) \<Rightarrow>
                   Some (snd r2 @ [Call Replicate], withPrefix (final_answer env (Some s))))
         else Some (snd r2, withPrefix (final_answer env (fst r2))))"

definition runwayModes :: "string list" where
  "runwayModes = [''t2i'', ''t2v'', ''i2v'', ''v2v'', ''upscale'', ''act'']"

definition repModes :: "string list" where
  "repModes = [''flux'', ''fixface'', ''caption'', ''burncaption'', ''recon3d'']"

text \<open>The reply that carries the output of a Replicate media job.\<close>

definition replicate_media_reply :: "string \<Rightarrow> json \<Rightarrow> reply" where
  "replicate_media_reply sub out =
     (if sub = ''flux'' \<or> sub = ''fixface'' then Photo out
      else if sub = ''recon3d'' then Document out
      else if sub = ''caption'' then TextOf out
      else Video out)"

text \<open>The \<^verbatim>\<open>Stability / Pixabay fallback for t2i\<close> and the last reply of the media branch.\<close>

definition no_provider_text :: string where
  "no_provider_text = ''No provider configured for that media mode or provider returned no output.''"

definition t2i_fallback :: "providers \<Rightarrow> string \<Rightarrow> chain_event list \<times> reply list" where
  "t2i_fallback env sub =
     (let none = Text (withPrefix no_provider_text)
      in if sub = ''t2i'' then
           (let s = (if STABILITY_KEY env
                     then (case callStabilityImage env of
                             Inl e \<Rightarrow> (None, [Call Stability, Warned Stability e])
                           | Inr buff \<Rightarrow> (Some PhotoBuffer, [Call Stability]))
                     else (None, []))
            in case fst s of
                 Some r \<Rightarrow> (snd s, [r])
               | None \<Rightarrow>
                   if PIXABAY_KEY env then
                     (case pixabaySearch env of
                        Inl e \<Rightarrow> (snd s @ [Call Pixabay, Warned Pixabay e], [none])
                      | Inr hits \<Rightarrow>
                          (case hits of
                             [] \<Rightarrow> (snd s @ [Call Pixabay], [none])
                           | h # _ \<Rightarrow>
                               (case get_prop h ''largeImageURL'' of
                                  Inl e \<Rightarrow> (snd s @ [Call Pixabay, Warned Pixabay e], [none])
                                | Inr url \<Rightarrow> (snd s @ [Call Pixabay], [Photo url]))))
                   else (snd s, [none]))
         else ([], [none]))"

text \<open>
  The media branch for a mode \<open>sub\<close> with an input: the Runway branch, the Replicate
  branch, then the fallback. The result is the trace and the replies sent.
\<close>

definition media_chain :: "int \<Rightarrow> providers \<Rightarrow> string \<Rightarrow> (chain_event list \<times> reply list) option" where
  "media_chain T env sub =
     (if sub \<in> set runwayModes \<and> RUNWAY_API_KEY env then
        (case callRunway env of
           Inl e \<Rightarrow> Some ([Call Runway], [ErrorText ''Runway media error: '' e])
         | Inr res \<Rightarrow>
             (case get_prop res ''output'' of
                Inl e \<Rightarrow> Some ([Call Runway], [ErrorText ''Runway media error: '' e])
              | Inr output \<Rightarrow>
                  (let out = (if truthy (safeFirst output) then safeFirst output else output)
                   in if \<not> truthy out then Some ([Call Runway], [Text (withPrefix ''Runway returned no output yet.'')])
                      else if sub = ''t2i'' then Some ([Call Runway], [Photo out])
                      else Some ([Call Runway], [Video out]))))
      else if sub \<in> set repModes \<and> REPLICATE_API_KEY env then
        (if \<not> repModel env then Some ([], [Text (withPrefix ''Replicate model not set for this mode.'')])
         else
           (case callReplicateCreate env of
              Inl e \<Rightarrow> Some ([Call Replicate], [ErrorText ''Replicate media error: '' e])
            | Inr created \<Rightarrow>
                if truthy (opt_field created ''id'') then
                  (let started = Text (withPrefix ''Started job on Replicate, polling until done...'')
                   in case fst (pollReplicatePrediction T (Some progressEditor) (poll_start env) (poll_ticks env)
                                  (initial_notifier, [])) of
                        None \<Rightarrow> None
                      | Some (Inl e) \<Rightarrow> Some ([Call Replicate], [started, ErrorText ''Replicate media error: '' e])
                      | Some (Inr polled) \<Rightarrow>
                          (let out = safeFirst (field polled ''output'')
                           in if \<not> truthy out
                              then Some ([Call Replicate],
                                     [started, Text (withPrefix ''Replicate finished but produced no output.'')])
                              else Some ([Call Replicate], [started, replicate_media_reply sub out])))
                else if truthy (index0 (opt_field created ''output''))
                then Some ([Call Replicate], [replicate_media_reply sub (index0 (opt_field created ''output''))])
                else Some ([Call Replicate], [Text (withPrefix ''Replicate started job; check dashboard.'')])))
      else Some (t2i_fallback env sub))"


section \<open>Notions used to state the properties\<close>

text \<open>A call that sends or edits a message, and a tick on which \<^verbatim>\<open>onProgress\<close> makes one.\<close>

fun is_send :: "call \<Rightarrow> bool" where
  "is_send (Reply p r) = True"
| "is_send (EditMessageText i p r) = True"
| "is_send (Warn e) = False"

definition emits :: "transport \<Rightarrow> json \<Rightarrow> notifier \<Rightarrow> bool" where
  "emits w res s \<longleftrightarrow> list_ex is_send (snd (onProgress w res s))"




text \<open>An iteration after which the loop sleeps and goes on.\<close>

definition keeps_polling :: "int \<Rightarrow> int \<Rightarrow> 'w tick \<Rightarrow> bool" where
  "keeps_polling T start t \<longleftrightarrow>
     \<not> timed_out T start t \<and>
     (case fetched t of
        Inl e \<Rightarrow> False
      | Inr res \<Rightarrow>
          (case get_prop res ''status'' of
             Inl e \<Rightarrow> False
           | Inr st \<Rightarrow> st \<noteq> JString ''succeeded'' \<and> st \<noteq> JString ''failed''))"

text \<open>The payloads the loop hands to its callback, in order.\<close>

fun invocations :: "int \<Rightarrow> int \<Rightarrow> 'w tick list \<Rightarrow> ('w \<times> json) list" where
  "invocations T start [] = []"
| "invocations T start (t # ts) =
     (if timed_out T start t then []
      else
        (case fetched t of
           Inl e \<Rightarrow> []
         | Inr res \<Rightarrow> (world t, res) # (if keeps_polling T start t then invocations T start ts else [])))"

text \<open>The state a callback is left in after the given invocations.\<close>

fun callback_run :: "('w, 's) callback option \<Rightarrow> ('w \<times> json) list \<Rightarrow> 's \<Rightarrow> 's" where
  "callback_run onP [] s = s"
| "callback_run onP ((w, res) # rest) s =
     callback_run onP rest (case onP of None \<Rightarrow> s | Some f \<Rightarrow> snd (f w res s))"

text \<open>A payload from which no percent is extracted.\<close>

definition unknown_percent :: "json \<Rightarrow> bool" where
  "unknown_percent res \<longleftrightarrow> (case extract_percent res of Inr (Some p) \<Rightarrow> False | _ \<Rightarrow> True)"

text \<open>A text-producing provider call that gave no answer: it threw, or returned an empty text.\<close>

definition failed_text :: "js_error + string \<Rightarrow> bool" where
  "failed_text r \<longleftrightarrow> (case r of Inl e \<Rightarrow> True | Inr s \<Rightarrow> s = [])"

text \<open>
  An environment in which no provider is configured; each client function then throws
  its own configuration error.
\<close>

definition unconfigured :: providers where
  "unconfigured =
     \<lparr>HF_SPACE_URL = False, HUGGINGFACE_API_KEY = False, hfModelUrl = False,
      REPLICATE_API_KEY = False, repModel = False, RUNWAY_API_KEY = False,
      STABILITY_KEY = False, PIXABAY_KEY = False,
      callHfSpace = Inl (RequestError ''HF_SPACE_URL not configured''),
      callHfApi = Inl (RequestError ''HF API not configured''),
      callReplicateCreate = Inl (RequestError ''REPLICATE_API_KEY missing''),
      poll_start = 0, poll_ticks = [],
      callRunway = Inl (RequestError ''RUNWAY_API_KEY missing''),
      callStabilityImage = Inl (RequestError ''STABILITY_KEY missing''),
      pixabaySearch = Inl (RequestError ''PIXABAY_KEY missing''),
      wikiSummary = ''No Wikipedia summary found.'',
      duckDuck = ''No DuckDuckGo instant answer.''\<rparr>"

section \<open>Properties\<close>

subsection \<open>Percent extraction\<close>














subsection \<open>The emission decision\<close>

lemma shouldUpdate_iff:
  "shouldUpdate s percent t \<longleftrightarrow>
     (\<exists>p l. percent = Some (Num p) \<and> lastPercent s = Num l \<and> p - l \<ge> 5) \<or> t - lastSentTime s \<ge> 15000"
proof (cases percent)
  case None
  then show ?thesis by (simp add: shouldUpdate_def MIN_INTERVAL_MS_def)
next
  case (Some a)
  then show ?thesis
    by (cases a; cases "lastPercent s") (simp_all add: shouldUpdate_def MIN_INTERVAL_MS_def MIN_DELTA_def)
qed

lemma deliver_sends: "list_ex is_send (snd (snd (deliver w percent s)))"
  by (simp add: deliver_def split: option.splits sum.splits)

lemma emits_iff:
  assumes "extract_percent res = Inr percent"
  shows "emits w res s \<longleftrightarrow> shouldUpdate s percent (now w)"
proof (cases "shouldUpdate s percent (now w)")
  case False
  with assms show ?thesis by (simp add: emits_def onProgress_def onProgress_body_def)
next
  case True
  obtain e s' cs where d: "deliver w percent (s\<lparr>lastSentTime := now w\<rparr>) = (e, s', cs)"
    by (cases "deliver w percent (s\<lparr>lastSentTime := now w\<rparr>)") auto
  with deliver_sends [of w percent "s\<lparr>lastSentTime := now w\<rparr>"] have "list_ex is_send cs" by simp
  with assms True d show ?thesis
    by (cases e) (simp_all add: emits_def onProgress_def onProgress_body_def)
qed




subsection \<open>Emitted percents\<close>


lemma notifications_append:
  "notifications (xs @ ys) = notifications xs + notifications ys"
  by (simp add: notifications_def map_filter_def)


lemma onProgress_quiet:
  assumes "\<not> emits w res s"
  shows "onProgress w res s = (s, []) \<or> (\<exists>e. onProgress w res s = (s, [Warn e]))"
proof (cases "extract_percent res")
  case (Inl e)
  then show ?thesis by (simp add: onProgress_def onProgress_body_def)
next
  case (Inr percent)
  with assms have "\<not> shouldUpdate s percent (now w)" by (simp add: emits_iff)
  with Inr show ?thesis by (simp add: onProgress_def onProgress_body_def)
qed










subsection \<open>The recorded message\<close>







subsection \<open>The polling loop\<close>

lemma poll_loop_state:
  "snd (poll_loop T onP start ticks s) = callback_run onP (invocations T start ticks) s"
proof (induction ticks arbitrary: s)
  case Nil
  then show ?case by simp
next
  case (Cons t ticks)
  show ?case
  proof (cases "timed_out T start t")
    case True
    then show ?thesis by simp
  next
    case False
    show ?thesis
    proof (cases "fetched t")
      case (Inl e)
      with False show ?thesis by simp
    next
      case (Inr res)
      with False Cons.IH show ?thesis
        by (auto simp: keeps_polling_def Let_def split: sum.splits)
    qed
  qed
qed

lemma poll_loop_keeps:
  "keeps_polling T start t \<Longrightarrow>
   poll_loop T onP start (t # ts) s =
     poll_loop T onP start ts (callback_run onP (invocations T start [t]) s)"
  by (auto simp: keeps_polling_def Let_def split: sum.splits)

lemma invocations_keeps:
  "list_all (keeps_polling T start) pre \<Longrightarrow>
   invocations T start (pre @ rest) = invocations T start pre @ invocations T start rest"
  by (induction pre) (auto simp: keeps_polling_def split: sum.splits)

lemma callback_run_append:
  "callback_run onP (xs @ ys) s = callback_run onP ys (callback_run onP xs s)"
  by (induction xs arbitrary: s) auto

lemma poll_loop_append:
  "list_all (keeps_polling T start) pre \<Longrightarrow>
   poll_loop T onP start (pre @ rest) s =
     poll_loop T onP start rest (callback_run onP (invocations T start pre) s)"
proof (induction pre arbitrary: s)
  case Nil
  then show ?case by simp
next
  case (Cons t pre)
  then have k: "keeps_polling T start t" and ks: "list_all (keeps_polling T start) pre" by simp_all
  have "poll_loop T onP start ((t # pre) @ rest) s =
        poll_loop T onP start (pre @ rest) (callback_run onP (invocations T start [t]) s)"
    by (simp only: append_Cons poll_loop_keeps [OF k])
  also have "\<dots> = poll_loop T onP start rest
        (callback_run onP (invocations T start pre) (callback_run onP (invocations T start [t]) s))"
    by (rule Cons.IH [OF ks])
  also have "callback_run onP (invocations T start pre) (callback_run onP (invocations T start [t]) s)
      = callback_run onP (invocations T start (t # pre)) s"
    using invocations_keeps [of T start "[t]" pre] k by (simp add: callback_run_append)
  finally show ?case .
qed

lemma timed_out_iff: "timed_out T start t \<longleftrightarrow> clock t - start > 1000 * T"
proof -
  have "((of_int (clock t - start) / 1000 :: rat) > of_int T) \<longleftrightarrow>
        (of_int (clock t - start) :: rat) > of_int T * 1000"
    by (simp add: pos_less_divide_eq)
  also have "\<dots> \<longleftrightarrow> (of_int (clock t - start) :: rat) > of_int (T * 1000)" by simp
  also have "\<dots> \<longleftrightarrow> clock t - start > T * 1000" by (simp only: of_int_less_iff)
  finally show ?thesis by (simp add: timed_out_def mult.commute)
qed

text \<open>
  Claim C5. When the loop, after any iterations that kept it polling, reaches an
  iteration whose clock reads more than \<open>1000 * T\<close> ms past \<open>start\<close>, the run ends with
  \<^verbatim>\<open>Replicate polling timed out\<close>, whatever the payloads seen so far reported (status,
  progress) and whatever this and later fetches would return. The deadline is counted
  from the reading taken before the loop, not from the last payload.
\<close>

theorem deadline_ends_polling:
  "(list_all (keeps_polling T start) pre \<and> clock t - start > 1000 * T \<longrightarrow>
      pollReplicatePrediction T onP start (pre @ t # post) s =
        (Some (Inl PollTimedOut), callback_run onP (invocations T start pre) s))
   \<and> (timed_out T start t \<longleftrightarrow> clock t - start > 1000 * T)"
proof -
  have "poll_loop T onP start (pre @ t # post) s =
        (Some (Inl PollTimedOut), callback_run onP (invocations T start pre) s)"
    if "list_all (keeps_polling T start) pre" and "clock t - start > 1000 * T"
    using that by (simp add: poll_loop_append timed_out_iff)
  then show ?thesis
    by (simp add: pollReplicatePrediction_def timed_out_iff)
qed



theorem deadline_ends_polling_witness:
  "pollReplicatePrediction 600 (Some progressEditor) 1700000000000
     ([\<lparr>clock = 1700000000000,
         fetched = Inr (JObject [(''status'', JString ''processing''), (''progress'', JNumber (Num (50 / 100)))]),
         world = \<lparr>now = 1700000000200, reply_result = Inr (Message 1), edit_result = None\<rparr>\<rparr>,
       \<lparr>clock = 1700000300000,
         fetched = Inr (JObject [(''status'', JString ''processing''), (''progress'', JNumber (Num (90 / 100)))]),
         world = \<lparr>now = 1700000300200, reply_result = Inr (Message 2), edit_result = None\<rparr>\<rparr>]
      @ \<lparr>clock = 1700000600001,
         fetched = Inr (JObject [(''status'', JString ''succeeded'')]),
         world = \<lparr>now = 1700000600200, reply_result = Inr (Message 3), edit_result = None\<rparr>\<rparr> # [])
     (initial_notifier, [])
   = (Some (Inl PollTimedOut),
      \<lparr>lastPercent = Num 90, lastSentTime = 1700000300200, progressMsg = Some (Message 1)\<rparr>,
      [Reply (Some (Num 50)) (Inr (Message 1)), EditMessageText 1 (Some (Num 90)) None])"
proof -
  let ?pre = "[\<lparr>clock = 1700000000000,
         fetched = Inr (JObject [(''status'', JString ''processing''), (''progress'', JNumber (Num (50 / 100)))]),
         world = \<lparr>now = 1700000000200, reply_result = Inr (Message 1), edit_result = None\<rparr>\<rparr>,
       \<lparr>clock = 1700000300000,
         fetched = Inr (JObject [(''status'', JString ''processing''), (''progress'', JNumber (Num (90 / 100)))]),
         world = \<lparr>now = 1700000300200, reply_result = Inr (Message 2), edit_result = None\<rparr>\<rparr>]"
  let ?t = "\<lparr>clock = 1700000600001,
         fetched = Inr (JObject [(''status'', JString ''succeeded'')]),
         world = \<lparr>now = 1700000600200, reply_result = Inr (Message 3), edit_result = None\<rparr>\<rparr>"
  have k: "list_all (keeps_polling 600 1700000000000) ?pre"
    by (simp add: keeps_polling_def timed_out_def get_prop_def)
  have c: "clock ?t - 1700000000000 > 1000 * 600" by simp
  have x: "\<And>r. extract_percent (JObject [(''status'', JString ''processing''), (''progress'', JNumber (Num r))])
      = Inr (Some (Num (of_int (round (r * 100)))))"
    by (simp add: extract_percent_def get_prop_def percent_of_def direct_progress_def scale100_def)
  have r: "callback_run (Some progressEditor) (invocations 600 1700000000000 ?pre) (initial_notifier, [])
     = (\<lparr>lastPercent = Num 90, lastSentTime = 1700000300200, progressMsg = Some (Message 1)\<rparr>,
      [Reply (Some (Num 50)) (Inr (Message 1)), EditMessageText 1 (Some (Num 90)) None])"
    by (simp add: keeps_polling_def timed_out_def get_prop_def progressEditor_def
          initial_notifier_def onProgress_def onProgress_body_def x shouldUpdate_def deliver_def
          MIN_DELTA_def MIN_INTERVAL_MS_def)
  from deadline_ends_polling [of 600 1700000000000 ?pre ?t "Some progressEditor" "[]" "(initial_notifier, [])"] k c
  have "pollReplicatePrediction 600 (Some progressEditor) 1700000000000 (?pre @ ?t # []) (initial_notifier, [])
      = (Some (Inl PollTimedOut),
         callback_run (Some progressEditor) (invocations 600 1700000000000 ?pre) (initial_notifier, []))"
    by blast
  with r show ?thesis by simp
qed



lemma poll_loop_throw_ignored:
  "poll_loop T (Some cb) start ticks s =
   poll_loop T (Some (\<lambda>w res s. (None, snd (cb w res s)))) start ticks s"
  by (induction ticks arbitrary: s) (simp_all add: Let_def split: sum.splits)

lemma poll_loop_result_callback_free:
  "fst (poll_loop T onP start ticks s) = fst (poll_loop T onP' start ticks s')"
proof (induction ticks arbitrary: s s')
  case Nil
  then show ?case by simp
next
  case (Cons t ticks)
  show ?case
  proof (cases "keeps_polling T start t")
    case True
    then show ?thesis by (simp only: poll_loop_keeps Cons.IH)
  next
    case False
    then show ?thesis
      by (auto simp: keeps_polling_def Let_def split: sum.splits)
  qed
qed

text \<open>
  Claim C8. A callback that throws leaves the run as it would be had the callback
  made the same state changes and returned: the same result and the same final state.
  The result of a run does not depend on the callback at all. Calling the progress
  editor never throws, and an error raised inside \<^verbatim>\<open>onProgress\<close> ends in a
  \<^verbatim>\<open>console.warn\<close>: so does the TypeError of a \<^verbatim>\<open>null\<close> payload, and a rejected message edit
  is answered by a new message without any error.
\<close>

theorem callback_failure_ignored:
  "pollReplicatePrediction T (Some cb) start ticks s =
     pollReplicatePrediction T (Some (\<lambda>w res s. (None, snd (cb w res s)))) start ticks s
   \<and> fst (pollReplicatePrediction T (Some cb) start ticks s) =
     fst (pollReplicatePrediction T None start ticks s)
   \<and> fst (progressEditor w res (n, calls)) = None
   \<and> (\<forall>e n' cs. onProgress_body w res n = (Some e, n', cs) \<longrightarrow>
        onProgress w res n = (n', cs @ [Warn e]))
   \<and> onProgress w JNull n = (n, [Warn TypeError])
   \<and> (progressMsg n = Some m \<and> edit_result w = Some e \<and> reply_result w = Inr sent \<longrightarrow>
        deliver w p n =
          (None, n, [EditMessageText (message_id m) p (Some e), Reply p (Inr sent)]))"
proof -
  have "fst (poll_loop T (Some cb) start ticks s) = fst (poll_loop T None start ticks s)"
    by (rule poll_loop_result_callback_free)
  moreover have "fst (progressEditor w res (n, calls)) = None"
    by (simp add: progressEditor_def)
  moreover have "\<forall>e n' cs. onProgress_body w res n = (Some e, n', cs) \<longrightarrow>
        onProgress w res n = (n', cs @ [Warn e])"
    by (simp add: onProgress_def)
  moreover have "onProgress w JNull n = (n, [Warn TypeError])"
    by (simp add: onProgress_def onProgress_body_def extract_percent_def get_prop_def)
  moreover have "progressMsg n = Some m \<and> edit_result w = Some e \<and> reply_result w = Inr sent \<longrightarrow>
        deliver w p n =
          (None, n, [EditMessageText (message_id m) p (Some e), Reply p (Inr sent)])"
    by (simp add: deliver_def)
  ultimately show ?thesis
    using poll_loop_throw_ignored [of T cb start ticks s]
    by (simp add: pollReplicatePrediction_def)
qed

theorem callback_failure_ignored_witness:
  "pollReplicatePrediction 600 (Some (\<lambda>w res (k :: nat). (Some TypeError, Suc k))) 1700000000000
     [\<lparr>clock = 1700000000000,
         fetched = Inr (JObject [(''status'', JString ''processing'')]), world = ()\<rparr>,
      \<lparr>clock = 1700000003000,
         fetched = Inr (JObject [(''status'', JString ''succeeded'')]), world = ()\<rparr>] 0
   = (Some (Inr (JObject [(''status'', JString ''succeeded'')])), 2)
   \<and> onProgress \<lparr>now = 1700000000000, reply_result = Inl (RequestError ''chat not found''), edit_result = None\<rparr>
        (JObject []) initial_notifier
     = (initial_notifier\<lparr>lastSentTime := 1700000000000\<rparr>,
        [Reply None (Inl (RequestError ''chat not found'')), Warn (RequestError ''chat not found'')])"
proof -
  let ?ticks = "[\<lparr>clock = 1700000000000,
         fetched = Inr (JObject [(''status'', JString ''processing'')]), world = ()\<rparr>,
      \<lparr>clock = 1700000003000,
         fetched = Inr (JObject [(''status'', JString ''succeeded'')]), world = ()\<rparr>]"
  let ?w = "\<lparr>now = 1700000000000, reply_result = Inl (RequestError ''chat not found''), edit_result = None\<rparr>"
  have x: "extract_percent (JObject []) = Inr None"
    by (simp add: extract_percent_def get_prop_def percent_of_def direct_progress_def
          metrics_progress_def recent_log_def)
  have b: "onProgress_body ?w (JObject []) initial_notifier
      = (Some (RequestError ''chat not found''), initial_notifier\<lparr>lastSentTime := 1700000000000\<rparr>,
         [Reply None (Inl (RequestError ''chat not found''))])"
    by (simp add: onProgress_body_def x shouldUpdate_def deliver_def initial_notifier_def MIN_INTERVAL_MS_def)
  note th = callback_failure_ignored [of 600 "\<lambda>w res (k :: nat). (Some TypeError, Suc k)" 1700000000000
       ?ticks 0 ?w "JObject []" initial_notifier "[]"]
  from th have "pollReplicatePrediction 600 (Some (\<lambda>w res (k :: nat). (Some TypeError, Suc k))) 1700000000000 ?ticks 0
     = pollReplicatePrediction 600 (Some (\<lambda>w res (k :: nat). (None, snd (Some TypeError, Suc k)))) 1700000000000 ?ticks 0"
    by blast
  also have "\<dots> = (Some (Inr (JObject [(''status'', JString ''succeeded'')])), 2)"
    by (simp add: pollReplicatePrediction_def timed_out_def get_prop_def)
  finally have p: "pollReplicatePrediction 600 (Some (\<lambda>w res (k :: nat). (Some TypeError, Suc k))) 1700000000000 ?ticks 0
     = (Some (Inr (JObject [(''status'', JString ''succeeded'')])), 2)" .
  from th b have "onProgress ?w (JObject []) initial_notifier
     = (initial_notifier\<lparr>lastSentTime := 1700000000000\<rparr>,
        [Reply None (Inl (RequestError ''chat not found'')), Warn (RequestError ''chat not found'')])"
    by simp
  with p show ?thesis by blast
qed

subsection \<open>The number of notifications\<close>

lemma progressEditor_step:
  "snd (progressEditor w res (s, cs)) = (fst (onProgress w res s), cs @ snd (onProgress w res s))"
  by (simp add: progressEditor_def)

lemma callback_run_progressEditor:
  "callback_run (Some progressEditor) invs (s, cs) =
     (fst (notify_run invs s), cs @ snd (notify_run invs s))"
proof (induction invs arbitrary: s cs)
  case Nil
  then show ?case by simp
next
  case (Cons a invs)
  obtain w res where a: "a = (w, res)" by (cases a)
  show ?case
    by (simp add: a progressEditor_step Cons.IH Let_def)
qed

lemma invocations_from_ticks:
  "(w, res) \<in> set (invocations T start ticks) \<Longrightarrow>
   \<exists>t \<in> set ticks. world t = w \<and> fetched t = Inr res"
  by (induction ticks) (auto split: if_splits sum.splits)

lemma deliver_notifications: "notifications (snd (snd (deliver w percent s))) \<le> 1"
  by (simp add: deliver_def notifications_def map_filter_def split: option.splits sum.splits)

lemma deliver_lastSentTime: "lastSentTime (fst (snd (deliver w percent s))) = lastSentTime s"
  by (simp add: deliver_def split: option.splits sum.splits)

lemma onProgress_emits:
  assumes "emits w res s"
  shows "lastSentTime (fst (onProgress w res s)) = now w \<and> notifications (snd (onProgress w res s)) \<le> 1"
proof (cases "extract_percent res")
  case (Inl e)
  with assms show ?thesis by (simp add: emits_def onProgress_def onProgress_body_def)
next
  case (Inr percent)
  with assms have su: "shouldUpdate s percent (now w)" by (simp add: emits_iff)
  obtain e s' cs where d: "deliver w percent (s\<lparr>lastSentTime := now w\<rparr>) = (e, s', cs)"
    by (cases "deliver w percent (s\<lparr>lastSentTime := now w\<rparr>)") auto
  from d deliver_notifications [of w percent "s\<lparr>lastSentTime := now w\<rparr>"]
  have n: "notifications cs \<le> 1" by simp
  from d deliver_lastSentTime [of w percent "s\<lparr>lastSentTime := now w\<rparr>"]
  have l: "lastSentTime s' = now w" by simp
  from Inr su d n l show ?thesis
    by (cases e; cases percent)
       (simp_all add: onProgress_def onProgress_body_def notifications_append notifications_def map_filter_def)
qed

lemma onProgress_silent:
  assumes "\<not> emits w res s"
  shows "fst (onProgress w res s) = s \<and> notifications (snd (onProgress w res s)) = 0"
  using onProgress_quiet [OF assms] by (auto simp: notifications_def map_filter_def)

lemma emits_unknown:
  assumes "unknown_percent res" and "emits w res s"
  shows "now w - lastSentTime s \<ge> 15000"
proof (cases "extract_percent res")
  case (Inl e)
  with assms show ?thesis by (simp add: emits_def onProgress_def onProgress_body_def)
next
  case (Inr percent)
  with assms(1) have "percent = None" by (cases percent) (simp_all add: unknown_percent_def)
  with Inr assms(2) show ?thesis by (simp add: emits_iff shouldUpdate_iff)
qed

lemma notifications_after_send:
  "\<forall>(w, res) \<in> set invs. now w \<le> hi \<and> unknown_percent res \<Longrightarrow>
   15000 * int (notifications (snd (notify_run invs s))) \<le> max 0 (hi - lastSentTime s)"
proof (induction invs arbitrary: s)
  case Nil
  then show ?case by (simp add: notifications_def map_filter_def)
next
  case (Cons a invs)
  obtain w res where a: "a = (w, res)" by (cases a)
  from Cons.prems a have hi: "now w \<le> hi" and u: "unknown_percent res"
    and rest: "\<forall>(w, res) \<in> set invs. now w \<le> hi \<and> unknown_percent res" by auto
  let ?s1 = "fst (onProgress w res s)"
  have n: "notifications (snd (notify_run (a # invs) s)) =
      notifications (snd (onProgress w res s)) + notifications (snd (notify_run invs ?s1))"
    by (simp add: a Let_def notifications_append)
  note ih = Cons.IH [OF rest, of ?s1]
  show ?case
  proof (cases "emits w res s")
    case True
    from onProgress_emits [OF True] have l: "lastSentTime ?s1 = now w"
      and n1: "notifications (snd (onProgress w res s)) \<le> 1" by simp_all
    from emits_unknown [OF u True] have "now w - lastSentTime s \<ge> 15000" .
    with ih l n1 hi n show ?thesis by (simp add: max_def)
  next
    case False
    from onProgress_silent [OF False] ih n show ?thesis by simp
  qed
qed

lemma notifications_in_span:
  "\<forall>(w, res) \<in> set invs. lo \<le> now w \<and> now w \<le> hi \<and> unknown_percent res \<Longrightarrow> lo \<le> hi \<Longrightarrow>
   15000 * (int (notifications (snd (notify_run invs s))) - 1) \<le> hi - lo"
proof (induction invs arbitrary: s)
  case Nil
  then show ?case by (simp add: notifications_def map_filter_def)
next
  case (Cons a invs)
  obtain w res where a: "a = (w, res)" by (cases a)
  from Cons.prems a have lo: "lo \<le> now w" and hi: "now w \<le> hi" and u: "unknown_percent res"
    and rest: "\<forall>(w, res) \<in> set invs. lo \<le> now w \<and> now w \<le> hi \<and> unknown_percent res" by auto
  let ?s1 = "fst (onProgress w res s)"
  have n: "notifications (snd (notify_run (a # invs) s)) =
      notifications (snd (onProgress w res s)) + notifications (snd (notify_run invs ?s1))"
    by (simp add: a Let_def notifications_append)
  show ?case
  proof (cases "emits w res s")
    case True
    from onProgress_emits [OF True] have l: "lastSentTime ?s1 = now w"
      and n1: "notifications (snd (onProgress w res s)) \<le> 1" by simp_all
    from rest have "\<forall>(w, res) \<in> set invs. now w \<le> hi \<and> unknown_percent res" by auto
    from notifications_after_send [OF this, of ?s1] l hi
    have "15000 * int (notifications (snd (notify_run invs ?s1))) \<le> hi - now w" by simp
    with n n1 lo show ?thesis by simp
  next
    case False
    from onProgress_silent [OF False] Cons.IH [OF rest Cons.prems(2), of s] n show ?thesis by simp
  qed
qed

text \<open>
  Claim C9, as amended. In a run whose notifier clock readings all lie within \<open>D\<close> ms
  of \<open>start\<close> and in which no payload yields a percent, the number of notifications
  delivered is at most \<open>D div 15000 + 1\<close>, hence at most \<open>\<lceil>D / 15000\<rceil> + 1\<close>.
\<close>

theorem notifications_bounded:
  assumes "0 \<le> D"
    and "\<forall>t \<in> set ticks. start \<le> now (world t) \<and> now (world t) \<le> start + D"
    and "\<forall>t \<in> set ticks. \<forall>res. fetched t = Inr res \<longrightarrow> unknown_percent res"
  shows "int (notifications (snd (snd (pollReplicatePrediction T (Some progressEditor) start ticks (s, [])))))
           \<le> D div 15000 + 1
       \<and> int (notifications (snd (snd (pollReplicatePrediction T (Some progressEditor) start ticks (s, [])))))
           \<le> \<lceil>(of_int D :: rat) / 15000\<rceil> + 1"
proof -
  let ?invs = "invocations T start ticks"
  let ?n = "int (notifications (snd (notify_run ?invs s)))"
  have st: "snd (pollReplicatePrediction T (Some progressEditor) start ticks (s, []))
      = (fst (notify_run ?invs s), snd (notify_run ?invs s))"
    by (simp add: pollReplicatePrediction_def poll_loop_state callback_run_progressEditor)
  have "\<forall>(w, res) \<in> set ?invs. start \<le> now w \<and> now w \<le> start + D \<and> unknown_percent res"
  proof (clarify)
    fix w res
    assume "(w, res) \<in> set ?invs"
    from invocations_from_ticks [OF this] obtain t where "t \<in> set ticks" "world t = w" "fetched t = Inr res"
      by blast
    with assms(2,3) show "start \<le> now w \<and> now w \<le> start + D \<and> unknown_percent res" by auto
  qed
  from notifications_in_span [OF this, of s] assms(1)
  have b: "15000 * (?n - 1) \<le> D" by simp
  have "(15000 * (?n - 1)) div 15000 \<le> D div 15000"
    using b by (rule zdiv_mono1) simp
  then have d: "?n \<le> D div 15000 + 1" by simp
  have "D div 15000 = \<lfloor>(of_int D :: rat) / of_int 15000\<rfloor>"
    by (simp only: floor_divide_of_int_eq)
  also have "\<dots> \<le> \<lceil>(of_int D :: rat) / 15000\<rceil>"
    by (simp add: floor_le_ceiling)
  finally have "D div 15000 \<le> \<lceil>(of_int D :: rat) / 15000\<rceil>" .
  with d show ?thesis by (simp add: st)
qed

theorem notifications_bounded_witness:
  "int (notifications (snd (snd (pollReplicatePrediction 600 (Some progressEditor) 1700000000000
      [\<lparr>clock = 1700000000000,
         fetched = Inr (JObject [(''status'', JString ''processing'')]),
         world = \<lparr>now = 1700000000200, reply_result = Inr (Message 1), edit_result = None\<rparr>\<rparr>,
       \<lparr>clock = 1700000003200,
         fetched = Inr (JObject [(''status'', JString ''processing'')]),
         world = \<lparr>now = 1700000003400, reply_result = Inr (Message 2), edit_result = None\<rparr>\<rparr>,
       \<lparr>clock = 1700000016400,
         fetched = Inr (JObject [(''status'', JString ''succeeded'')]),
         world = \<lparr>now = 1700000016600, reply_result = Inr (Message 3), edit_result = None\<rparr>\<rparr>]
      (initial_notifier, []))))) \<le> 16600 div 15000 + 1"
proof -
  let ?ticks = "[\<lparr>clock = 1700000000000,
         fetched = Inr (JObject [(''status'', JString ''processing'')]),
         world = \<lparr>now = 1700000000200, reply_result = Inr (Message 1), edit_result = None\<rparr>\<rparr>,
       \<lparr>clock = 1700000003200,
         fetched = Inr (JObject [(''status'', JString ''processing'')]),
         world = \<lparr>now = 1700000003400, reply_result = Inr (Message 2), edit_result = None\<rparr>\<rparr>,
       \<lparr>clock = 1700000016400,
         fetched = Inr (JObject [(''status'', JString ''succeeded'')]),
         world = \<lparr>now = 1700000016600, reply_result = Inr (Message 3), edit_result = None\<rparr>\<rparr>]"
  have x: "\<And>st. unknown_percent (JObject [(''status'', JString st)])"
    by (simp add: unknown_percent_def extract_percent_def get_prop_def percent_of_def direct_progress_def
          metrics_progress_def recent_log_def)
  have d: "(0::int) \<le> 16600" by simp
  have c: "\<forall>t \<in> set ?ticks. 1700000000000 \<le> now (world t) \<and> now (world t) \<le> 1700000000000 + 16600"
    by simp
  have u: "\<forall>t \<in> set ?ticks. \<forall>res. fetched t = Inr res \<longrightarrow> unknown_percent res"
    by (simp add: x)
  from notifications_bounded [OF d c u, of 600 initial_notifier] show ?thesis by blast
qed

text \<open>
  Claim C9 as stated fails: the lower bound does not hold. In a run of 61000 ms with
  no percent, whose second fetch returns after 57 seconds, two notifications are
  delivered, while \<open>\<lceil>61000 / 15000\<rceil> - 1 = 4\<close>.
\<close>

theorem notifications_below_ceiling:
  "list_all (\<lambda>t. 1700000000000 \<le> now (world t) \<and> now (world t) \<le> 1700000000000 + 61000
               \<and> (case fetched t of Inl e \<Rightarrow> True | Inr res \<Rightarrow> unknown_percent res))
      [\<lparr>clock = 1700000000000,
         fetched = Inr (JObject [(''status'', JString ''processing'')]),
         world = \<lparr>now = 1700000000200, reply_result = Inr (Message 1), edit_result = None\<rparr>\<rparr>,
       \<lparr>clock = 1700000003200,
         fetched = Inr (JObject [(''status'', JString ''succeeded'')]),
         world = \<lparr>now = 1700000061000, reply_result = Inr (Message 2), edit_result = None\<rparr>\<rparr>]
   \<and> pollReplicatePrediction 600 (Some progressEditor) 1700000000000
      [\<lparr>clock = 1700000000000,
         fetched = Inr (JObject [(''status'', JString ''processing'')]),
         world = \<lparr>now = 1700000000200, reply_result = Inr (Message 1), edit_result = None\<rparr>\<rparr>,
       \<lparr>clock = 1700000003200,
         fetched = Inr (JObject [(''status'', JString ''succeeded'')]),
         world = \<lparr>now = 1700000061000, reply_result = Inr (Message 2), edit_result = None\<rparr>\<rparr>]
      (initial_notifier, [])
     = (Some (Inr (JObject [(''status'', JString ''succeeded'')])),
        \<lparr>lastPercent = Num (- 1), lastSentTime = 1700000061000, progressMsg = Some (Message 1)\<rparr>,
        [Reply None (Inr (Message 1)), EditMessageText 1 None None])
   \<and> notifications [Reply None (Inr (Message 1)), EditMessageText 1 None None] = 2
   \<and> \<lceil>(61000 :: rat) / 15000\<rceil> = 5
   \<and> \<not> (\<lceil>(61000 :: rat) / 15000\<rceil> - 1
          \<le> int (notifications [Reply None (Inr (Message 1)), EditMessageText 1 None None]))"
proof -
  have x: "\<And>st. extract_percent (JObject [(''status'', JString st)]) = Inr None"
    by (simp add: extract_percent_def get_prop_def percent_of_def direct_progress_def
          metrics_progress_def recent_log_def)
  have n: "notifications [Reply None (Inr (Message 1)), EditMessageText 1 None None] = 2"
    by (simp add: notifications_def map_filter_def)
  have c: "\<lceil>(61000 :: rat) / 15000\<rceil> = 5" by (rule ceiling_unique) simp_all
  show ?thesis
    unfolding n c
    by (simp add: unknown_percent_def x pollReplicatePrediction_def timed_out_def get_prop_def
          progressEditor_def initial_notifier_def onProgress_def onProgress_body_def shouldUpdate_def
          deliver_def MIN_INTERVAL_MS_def)
qed

subsection \<open>The fallback chains\<close>

lemma final_answer_none: "no_answer a \<Longrightarrow> final_answer env a = wiki_duck env"
  by (simp add: final_answer_def)

lemma chat_chain_all_failed:
  assumes h1: "HF_SPACE_URL env \<longrightarrow> failed_text (callHfSpace env)"
    and h2: "HUGGINGFACE_API_KEY env \<and> hfModelUrl env \<longrightarrow> failed_text (callHfApi env)"
    and h3: "REPLICATE_API_KEY env \<and> repModel env \<longrightarrow>
               (case replicate_chat str sfy T env of None \<Rightarrow> False | Some r \<Rightarrow> failed_text r)"
  shows "\<exists>evs. chat_chain str sfy T env = Some (evs, withPrefix (wiki_duck env))"
proof -
  define r1 where "r1 = (if HF_SPACE_URL env
                then (case callHfSpace env of
                        Inl e \<Rightarrow> (None, [Call HfSpace, Warned HfSpace e])
                      | Inr s \<Rightarrow> (Some s, [Call HfSpace]))
                else (None :: string option, []))"
  define r2 where "r2 = (if no_answer (fst r1) \<and> HUGGINGFACE_API_KEY env \<and> hfModelUrl env
                then (case callHfApi env of
                        Inl e \<Rightarrow> (fst r1, snd r1 @ [Call HfApi, Warned HfApi e])
                      | Inr s \<Rightarrow> (Some s, snd r1 @ [Call HfApi]))
                else r1)"
  have n1: "no_answer (fst r1)"
    using h1 by (auto simp: r1_def no_answer_def failed_text_def split: sum.splits)
  have n2: "no_answer (fst r2)"
    using h2 n1 by (auto simp: r2_def no_answer_def failed_text_def split: sum.splits)
  have c: "chat_chain str sfy T env =
      (if no_answer (fst r2) \<and> REPLICATE_API_KEY env \<and> repModel env
         then (case replicate_chat str sfy T env of
                 None \<Rightarrow> None
               | Some (Inl e) \<Rightarrow>
                   Some (snd r2 @ [Call Replicate, Warned Replicate e], withPrefix (final_answer env (fst r2)))
               | Some (Inr s) \<Rightarrow>
                   Some (snd r2 @ [Call Replicate], withPrefix (final_answer env (Some s))))
         else Some (snd r2, withPrefix (final_answer env (fst r2))))"
    by (simp only: chat_chain_def Let_def r1_def r2_def)
  show ?thesis
  proof (cases "REPLICATE_API_KEY env \<and> repModel env")
    case False
    with c n2 show ?thesis by (auto simp: final_answer_none)
  next
    case True
    with h3 obtain r where r: "replicate_chat str sfy T env = Some r" and f: "failed_text r"
      by (auto split: option.splits)
    show ?thesis
    proof (cases r)
      case (Inl e)
      with c n2 True r show ?thesis by (simp add: final_answer_none)
    next
      case (Inr s)
      with f have "s = []" by (simp add: failed_text_def)
      with c n2 True r Inr show ?thesis by (simp add: final_answer_none no_answer_def)
    qed
  qed
qed

lemma t2i_fallback_all_failed:
  assumes "STABILITY_KEY env \<longrightarrow> (\<exists>e. callStabilityImage env = Inl e)"
    and "PIXABAY_KEY env \<longrightarrow> (\<exists>e. pixabaySearch env = Inl e) \<or> pixabaySearch env = Inr []"
  shows "\<exists>evs. t2i_fallback env sub = (evs, [Text (withPrefix no_provider_text)])"
  using assms
  by (cases "STABILITY_KEY env"; cases "PIXABAY_KEY env")
     (auto simp: t2i_fallback_def no_provider_text_def Let_def)

text \<open>
  Claim C2, as amended. When every configured candidate of the chat chain fails (it
  throws, or yields an empty answer), the handler replies with the Wikipedia summary
  followed by the DuckDuckGo summary; the errors are only logged. In the media branch an
  error of the Runway or of the Replicate candidate ends the call with the reply
  \<^verbatim>\<open>'<Provider> media error: ' + e.message\<close>, and when Runway is not configured and the
  \<^verbatim>\<open>t2i\<close> fallbacks (Stability, Pixabay) all fail, the reply is the fixed text \<^verbatim>\<open>No provider
  configured for that media mode or provider returned no output.\<close> No provider error
  leaves the chain: the chat chain returns whenever the polling of its Replicate
  candidate does.
\<close>

theorem all_candidates_failed_reply:
  "((HF_SPACE_URL env \<longrightarrow> failed_text (callHfSpace env))
     \<and> (HUGGINGFACE_API_KEY env \<and> hfModelUrl env \<longrightarrow> failed_text (callHfApi env))
     \<and> (REPLICATE_API_KEY env \<and> repModel env \<longrightarrow>
          (case replicate_chat str sfy T env of None \<Rightarrow> False | Some r \<Rightarrow> failed_text r))
     \<longrightarrow> (\<exists>evs. chat_chain str sfy T env = Some (evs, withPrefix (wiki_duck env))))
   \<and> (sub \<in> set runwayModes \<and> RUNWAY_API_KEY env \<and> callRunway env = Inl e \<longrightarrow>
        media_chain T env sub = Some ([Call Runway], [ErrorText ''Runway media error: '' e]))
   \<and> (sub \<in> set repModes \<and> REPLICATE_API_KEY env \<and> repModel env \<and> callReplicateCreate env = Inl e \<longrightarrow>
        media_chain T env sub = Some ([Call Replicate], [ErrorText ''Replicate media error: '' e]))
   \<and> (sub = ''t2i'' \<and> \<not> RUNWAY_API_KEY env
        \<and> (STABILITY_KEY env \<longrightarrow> (\<exists>e. callStabilityImage env = Inl e))
        \<and> (PIXABAY_KEY env \<longrightarrow> (\<exists>e. pixabaySearch env = Inl e) \<or> pixabaySearch env = Inr [])
       \<longrightarrow> (\<exists>evs. media_chain T env sub = Some (evs, [Text (withPrefix no_provider_text)])))
   \<and> (sub \<in> set repModes \<and> REPLICATE_API_KEY env \<and> repModel env
        \<and> callReplicateCreate env = Inr created \<and> truthy (opt_field created ''id'')
        \<and> fst (pollReplicatePrediction T (Some progressEditor) (poll_start env) (poll_ticks env)
                 (initial_notifier, [])) = Some (Inl e) \<longrightarrow>
        media_chain T env sub =
          Some ([Call Replicate],
                [Text (withPrefix ''Started job on Replicate, polling until done...''),
                 ErrorText ''Replicate media error: '' e]))
   \<and> (replicate_chat str sfy T env \<noteq> None \<longrightarrow> chat_chain str sfy T env \<noteq> None)
   \<and> (fst (pollReplicatePrediction T (Some progressEditor) (poll_start env) (poll_ticks env)
              (initial_notifier, [])) \<noteq> None \<longrightarrow> media_chain T env sub \<noteq> None)"
proof -
  have a: "(HF_SPACE_URL env \<longrightarrow> failed_text (callHfSpace env))
     \<and> (HUGGINGFACE_API_KEY env \<and> hfModelUrl env \<longrightarrow> failed_text (callHfApi env))
     \<and> (REPLICATE_API_KEY env \<and> repModel env \<longrightarrow>
          (case replicate_chat str sfy T env of None \<Rightarrow> False | Some r \<Rightarrow> failed_text r))
     \<longrightarrow> (\<exists>evs. chat_chain str sfy T env = Some (evs, withPrefix (wiki_duck env)))"
    using chat_chain_all_failed [of env str sfy T] by blast
  have b: "sub \<in> set runwayModes \<and> RUNWAY_API_KEY env \<and> callRunway env = Inl e \<longrightarrow>
        media_chain T env sub = Some ([Call Runway], [ErrorText ''Runway media error: '' e])"
    by (simp add: media_chain_def)
  have nr: "sub \<in> set repModes \<Longrightarrow> sub \<notin> set runwayModes"
    by (auto simp: repModes_def runwayModes_def)
  then have c: "sub \<in> set repModes \<and> REPLICATE_API_KEY env \<and> repModel env \<and> callReplicateCreate env = Inl e \<longrightarrow>
        media_chain T env sub = Some ([Call Replicate], [ErrorText ''Replicate media error: '' e])"
    by (simp add: media_chain_def)
  have "''t2i'' \<notin> set repModes" by (simp add: repModes_def)
  then have d: "sub = ''t2i'' \<and> \<not> RUNWAY_API_KEY env
        \<and> (STABILITY_KEY env \<longrightarrow> (\<exists>e. callStabilityImage env = Inl e))
        \<and> (PIXABAY_KEY env \<longrightarrow> (\<exists>e. pixabaySearch env = Inl e) \<or> pixabaySearch env = Inr [])
       \<longrightarrow> (\<exists>evs. media_chain T env sub = Some (evs, [Text (withPrefix no_provider_text)]))"
    using t2i_fallback_all_failed [of env sub] by (auto simp: media_chain_def)
  have f: "replicate_chat str sfy T env \<noteq> None \<longrightarrow> chat_chain str sfy T env \<noteq> None"
    by (auto simp: chat_chain_def Let_def split: option.splits sum.splits)
  have g: "sub \<in> set repModes \<and> REPLICATE_API_KEY env \<and> repModel env
        \<and> callReplicateCreate env = Inr created \<and> truthy (opt_field created ''id'')
        \<and> fst (pollReplicatePrediction T (Some progressEditor) (poll_start env) (poll_ticks env)
                 (initial_notifier, [])) = Some (Inl e) \<longrightarrow>
        media_chain T env sub =
          Some ([Call Replicate],
                [Text (withPrefix ''Started job on Replicate, polling until done...''),
                 ErrorText ''Replicate media error: '' e])"
    using nr by (simp add: media_chain_def)
  have h: "fst (pollReplicatePrediction T (Some progressEditor) (poll_start env) (poll_ticks env)
              (initial_notifier, [])) \<noteq> None \<longrightarrow> media_chain T env sub \<noteq> None"
    by (auto simp: media_chain_def Let_def split: option.splits sum.splits)
  show ?thesis
    by (intro conjI) (rule a, rule b, rule c, rule d, rule g, rule f, rule h)
qed

theorem all_candidates_failed_reply_witness:
  "\<exists>evs. chat_chain (\<lambda>v. []) (\<lambda>v. []) 600
      (unconfigured\<lparr>HF_SPACE_URL := True, callHfSpace := Inl (RequestError ''timeout of 120000ms exceeded'')\<rparr>)
    = Some (evs, withPrefix (''No Wikipedia summary found.'' @ [CHR 0x0A, CHR 0x0A] @ ''Duck summary:''
               @ [CHR 0x0A] @ ''No DuckDuckGo instant answer.''))"
proof -
  let ?env = "unconfigured\<lparr>HF_SPACE_URL := True, callHfSpace := Inl (RequestError ''timeout of 120000ms exceeded'')\<rparr>"
  have h: "(HF_SPACE_URL ?env \<longrightarrow> failed_text (callHfSpace ?env))
     \<and> (HUGGINGFACE_API_KEY ?env \<and> hfModelUrl ?env \<longrightarrow> failed_text (callHfApi ?env))
     \<and> (REPLICATE_API_KEY ?env \<and> repModel ?env \<longrightarrow>
          (case replicate_chat (\<lambda>v. []) (\<lambda>v. []) 600 ?env of None \<Rightarrow> False | Some r \<Rightarrow> failed_text r))"
    by (simp add: unconfigured_def failed_text_def)
  have w: "wiki_duck ?env = ''No Wikipedia summary found.'' @ [CHR 0x0A, CHR 0x0A] @ ''Duck summary:''
               @ [CHR 0x0A] @ ''No DuckDuckGo instant answer.''"
    by (simp add: wiki_duck_def unconfigured_def)
  from all_candidates_failed_reply [of ?env "\<lambda>v. []" "\<lambda>v. []" 600] h
  have "\<exists>evs. chat_chain (\<lambda>v. []) (\<lambda>v. []) 600 ?env = Some (evs, withPrefix (wiki_duck ?env))"
    by blast
  then show ?thesis unfolding w .
qed

text \<open>
  Claim C2 as stated fails: with HF Space the only configured chat candidate and
  failing, the outcome is an ordinary reply, the Wikipedia and DuckDuckGo summary, and
  it is the same reply for two different errors; with Stability the only configured
  \<^verbatim>\<open>t2i\<close> candidate and failing, the reply is the fixed text. Neither carries the
  capability or the last error.
\<close>

theorem all_failed_reply_is_summary:
  "chat_chain (\<lambda>v. []) (\<lambda>v. []) 600
      (unconfigured\<lparr>HF_SPACE_URL := True, callHfSpace := Inl (RequestError ''timeout of 120000ms exceeded'')\<rparr>)
    = Some ([Call HfSpace, Warned HfSpace (RequestError ''timeout of 120000ms exceeded'')],
            withPrefix (''No Wikipedia summary found.'' @ [CHR 0x0A, CHR 0x0A] @ ''Duck summary:''
               @ [CHR 0x0A] @ ''No DuckDuckGo instant answer.''))
   \<and> chat_chain (\<lambda>v. []) (\<lambda>v. []) 600
      (unconfigured\<lparr>HF_SPACE_URL := True, callHfSpace := Inl (RequestError ''HF Space did not return output'')\<rparr>)
    = Some ([Call HfSpace, Warned HfSpace (RequestError ''HF Space did not return output'')],
            withPrefix (''No Wikipedia summary found.'' @ [CHR 0x0A, CHR 0x0A] @ ''Duck summary:''
               @ [CHR 0x0A] @ ''No DuckDuckGo instant answer.''))
   \<and> media_chain 600
      (unconfigured\<lparr>STABILITY_KEY := True, callStabilityImage := Inl (RequestError ''Request failed with status code 401'')\<rparr>)
      ''t2i''
    = Some ([Call Stability, Warned Stability (RequestError ''Request failed with status code 401'')],
            [Text (withPrefix ''No provider configured for that media mode or provider returned no output.'')])"
  by (simp add: chat_chain_def media_chain_def t2i_fallback_def unconfigured_def no_answer_def
        final_answer_def wiki_duck_def no_provider_text_def runwayModes_def repModes_def)















end
